theory Spec2Isabelle
  imports Complex_Main "HOL-Library.Multiset"
begin

section \<open>Numbers and errors\<close>

text \<open>
  The analyzer works on Python floats. The numbers of a pool, a target and the errors
  handed to the statistics are finite floats, modelled by \<^typ>\<open>real\<close>; \<open>0.0\<close> and
  \<open>-0.0\<close>, which compare equal, are one value. What the search computes from them is a
  \<open>pyfloat\<close>: every arithmetic operation rounds its exact result to binary64 and
  gives an infinity on overflow, and \<^verbatim>\<open>float("inf")\<close> is the initial
  \<^verbatim>\<open>best_error\<close>. A float division by zero raises \<^verbatim>\<open>ZeroDivisionError\<close>.
  \<^verbatim>\<open>None\<close> is the \<open>None\<close> of \<^typ>\<open>'a option\<close>. The statistics, which are the work of
  library functions, are modelled in exact arithmetic, with binary64 rounding applied
  where an equality between computed floats is in question: the subtraction of the
  \<^verbatim>\<open>range\<close> entry.
\<close>

datatype py_error = ZeroDivisionError | StatisticsError | ValueError | IndexError

datatype pyfloat = Finite real | PInf | NInf | NaN

text \<open>
  Round to nearest, ties to even, on the integers.
\<close>

definition round_half_even :: "real \<Rightarrow> int" where
  "round_half_even x =
     (let f = \<lfloor>x\<rfloor>; d = x - of_int f in
      if d < 1 / 2 then f else if 1 / 2 < d then f + 1 else if even f then f else f + 1)"

text \<open>
  The binary64 value nearest to a real number: 53 significant bits, the unit in the last
  place fixed at \<open>2 powr -1074\<close> below \<open>2 powr -1022\<close>. A decimal literal denotes the
  binary64 value nearest to it, and an arithmetic operation returns the binary64 value
  nearest to its exact result. The exponent is not bounded above here: \<open>pyfloat_of\<close> below
  turns a rounded value of magnitude \<open>2 powr 1024\<close> or more, which overflows, into an
  infinity.
\<close>

definition binary64 :: "real \<Rightarrow> real" where
  "binary64 x =
     (if x = 0 then 0
      else
        let e = max \<lfloor>log 2 \<bar>x\<bar>\<rfloor> (- 1022); ulp = 2 powr of_int (e - 52)
        in of_int (round_half_even (x / ulp)) * ulp)"

text \<open>
  \<^verbatim>\<open>a - b\<close> on two floats.
\<close>

definition float_sub :: "real \<Rightarrow> real \<Rightarrow> real" where
  "float_sub a b = binary64 (a - b)"

text \<open>
  The float an exact result is stored as: the nearest binary64 value, or an infinity when
  that value is out of range.
\<close>

definition pyfloat_of :: "real \<Rightarrow> pyfloat" where
  "pyfloat_of x =
     (let r = binary64 x in
      if 2 ^ 1024 \<le> r then PInf else if r \<le> - (2 ^ 1024) then NInf else Finite r)"


text \<open>
  The arithmetic of the search. The left operand is a computed float, the right operand
  a number of the pool, the target or the literal \<^verbatim>\<open>100\<close>. An infinity times zero
  is NaN.
\<close>

fun pyfloat_mul :: "pyfloat \<Rightarrow> real \<Rightarrow> pyfloat" where
  "pyfloat_mul (Finite a) b = pyfloat_of (a * b)"
| "pyfloat_mul PInf b = (if 0 < b then PInf else if b < 0 then NInf else NaN)"
| "pyfloat_mul NInf b = (if 0 < b then NInf else if b < 0 then PInf else NaN)"
| "pyfloat_mul NaN b = NaN"

text \<open>
  \<^verbatim>\<open>x / b\<close> for a divisor \<open>b \<noteq> 0\<close>. A zero divisor raises in Python; the search
  divides by \<^verbatim>\<open>n3\<close> after its test \<^verbatim>\<open>n3 == 0\<close>, and the raise of the division by
  a zero target is a branch of \<open>search_step\<close>, so no zero divisor reaches this function.
\<close>

fun pyfloat_div :: "pyfloat \<Rightarrow> real \<Rightarrow> pyfloat" where
  "pyfloat_div (Finite a) b = pyfloat_of (a / b)"
| "pyfloat_div PInf b = (if 0 < b then PInf else NInf)"
| "pyfloat_div NInf b = (if 0 < b then NInf else PInf)"
| "pyfloat_div NaN b = NaN"

fun pyfloat_sub :: "pyfloat \<Rightarrow> real \<Rightarrow> pyfloat" where
  "pyfloat_sub (Finite a) b = pyfloat_of (a - b)"
| "pyfloat_sub PInf b = PInf"
| "pyfloat_sub NInf b = NInf"
| "pyfloat_sub NaN b = NaN"

fun pyfloat_abs :: "pyfloat \<Rightarrow> pyfloat" where
  "pyfloat_abs (Finite a) = Finite \<bar>a\<bar>"
| "pyfloat_abs PInf = PInf"
| "pyfloat_abs NInf = PInf"
| "pyfloat_abs NaN = NaN"

text \<open>\<^verbatim>\<open>x < y\<close> on floats: false whenever an operand is NaN.\<close>

fun pyfloat_less :: "pyfloat \<Rightarrow> pyfloat \<Rightarrow> bool" where
  "pyfloat_less (Finite a) (Finite b) = (a < b)"
| "pyfloat_less (Finite a) PInf = True"
| "pyfloat_less NInf (Finite b) = True"
| "pyfloat_less NInf PInf = True"
| "pyfloat_less x y = False"

section \<open>Combination search\<close>

type_synonym combination = "real \<times> real \<times> real"

record search_state =
  best_error :: pyfloat
  best_result :: "pyfloat option"
  best_combination :: "combination option"

text \<open>The three assignments before the loop of \<^verbatim>\<open>_find_best_combination\<close>.\<close>

definition initial_state :: search_state where
  "initial_state = \<lparr>best_error = PInf, best_result = None, best_combination = None\<rparr>"

text \<open>
  \<^verbatim>\<open>itertools.product(numbers, repeat=3)\<close>: the first component varies slowest, the
  third fastest.
\<close>

definition product3 :: "'a list \<Rightarrow> ('a \<times> 'a \<times> 'a) list" where
  "product3 numbers = List.product numbers (List.product numbers numbers)"

text \<open>\<^verbatim>\<open>result = (n1 * n2) / n3\<close> and \<^verbatim>\<open>error = abs(result - target) / target * 100\<close>.\<close>

fun formula :: "combination \<Rightarrow> pyfloat" where
  "formula (n1, n2, n3) = pyfloat_div (pyfloat_mul (Finite n1) n2) n3"

definition percentage_error :: "real \<Rightarrow> pyfloat \<Rightarrow> pyfloat" where
  "percentage_error target result =
     pyfloat_mul (pyfloat_div (pyfloat_abs (pyfloat_sub result target)) target) 100"

fun scored :: "combination \<Rightarrow> bool" where
  "scored (n1, n2, n3) = (n3 \<noteq> 0)"

text \<open>
  One iteration of the loop. A triple with \<^verbatim>\<open>n3 == 0\<close> takes the
  \<^verbatim>\<open>continue\<close>; otherwise the division by \<^verbatim>\<open>target\<close> raises when the target is
  zero, and the best values are replaced when the error is strictly smaller.
\<close>

fun search_step :: "real \<Rightarrow> combination \<Rightarrow> search_state \<Rightarrow> py_error + search_state" where
  "search_step target (n1, n2, n3) s =
     (if n3 = 0 then Inr s
      else
        let result = pyfloat_div (pyfloat_mul (Finite n1) n2) n3 in
        if target = 0 then Inl ZeroDivisionError
        else
          let error = pyfloat_mul (pyfloat_div (pyfloat_abs (pyfloat_sub result target)) target) 100 in
          if pyfloat_less error (best_error s)
          then Inr \<lparr>best_error = error, best_result = Some result,
                    best_combination = Some (n1, n2, n3)\<rparr>
          else Inr s)"

fun search_loop :: "real \<Rightarrow> combination list \<Rightarrow> search_state \<Rightarrow> py_error + search_state" where
  "search_loop target [] s = Inr s"
| "search_loop target (t # ts) s =
     (case search_step target t s of
        Inl e \<Rightarrow> Inl e
      | Inr s' \<Rightarrow> search_loop target ts s')"

definition find_best_combination ::
  "real list \<Rightarrow> real \<Rightarrow> py_error + (pyfloat option \<times> pyfloat \<times> combination option)" where
  "find_best_combination numbers target =
     (case search_loop target (product3 numbers) initial_state of
        Inl e \<Rightarrow> Inl e
      | Inr s \<Rightarrow> Inr (best_result s, best_error s, best_combination s))"

text \<open>The state after the assignment in the loop body, for a scored triple.\<close>

definition chosen :: "real \<Rightarrow> combination \<Rightarrow> search_state" where
  "chosen target t =
     \<lparr>best_error = percentage_error target (formula t),
      best_result = Some (formula t), best_combination = Some t\<rparr>"

section \<open>Statistics\<close>

text \<open>
  \<^verbatim>\<open>_calculate_statistical_metrics\<close> calls Python's \<^verbatim>\<open>statistics\<close> module, the
  builtins \<^verbatim>\<open>min\<close> and \<^verbatim>\<open>max\<close>, and \<^verbatim>\<open>numpy.percentile\<close>. These library
  functions are modelled by what they compute and by the errors they raise:
  \<^verbatim>\<open>StatisticsError\<close> from \<^verbatim>\<open>mean\<close> and \<^verbatim>\<open>median\<close> on no data and from
  \<^verbatim>\<open>variance\<close> and \<^verbatim>\<open>stdev\<close> on fewer than two values, \<^verbatim>\<open>ValueError\<close> from
  \<^verbatim>\<open>min\<close> and \<^verbatim>\<open>max\<close> on an empty list.
\<close>

definition and_then :: "py_error + 'a \<Rightarrow> ('a \<Rightarrow> py_error + 'b) \<Rightarrow> py_error + 'b" where
  "and_then m f = (case m of Inl e \<Rightarrow> Inl e | Inr v \<Rightarrow> f v)"

definition statistics_mean :: "real list \<Rightarrow> py_error + real" where
  "statistics_mean data =
     (let n = length data in
      if n < 1 then Inl StatisticsError else Inr (sum_list data / real n))"

definition statistics_median :: "real list \<Rightarrow> py_error + real" where
  "statistics_median unsorted =
     (let data = sort unsorted; n = length data in
      if n = 0 then Inl StatisticsError
      else if n mod 2 = 1 then Inr (data ! (n div 2))
      else let i = n div 2 in Inr ((data ! (i - 1) + data ! i) / 2))"

text \<open>The sum of the squared deviations from the mean.\<close>

definition sum_of_squares :: "real list \<Rightarrow> real" where
  "sum_of_squares data =
     (let c = sum_list data / real (length data) in sum_list (map (\<lambda>x. (x - c)\<^sup>2) data))"

definition statistics_variance :: "real list \<Rightarrow> py_error + real" where
  "statistics_variance data =
     (let n = length data in
      if n < 2 then Inl StatisticsError else Inr (sum_of_squares data / real (n - 1)))"

definition statistics_stdev :: "real list \<Rightarrow> py_error + real" where
  "statistics_stdev data =
     (let n = length data in
      if n < 2 then Inl StatisticsError else Inr (sqrt (sum_of_squares data / real (n - 1))))"

text \<open>The builtins keep the first extreme item: a later item replaces it only when strictly smaller (larger).\<close>

fun py_min :: "real list \<Rightarrow> py_error + real" where
  "py_min [] = Inl ValueError"
| "py_min (x # xs) = Inr (fold (\<lambda>item current. if item < current then item else current) xs x)"

fun py_max :: "real list \<Rightarrow> py_error + real" where
  "py_max [] = Inl ValueError"
| "py_max (x # xs) = Inr (fold (\<lambda>item current. if current < item then item else current) xs x)"

text \<open>
  \<^verbatim>\<open>numpy.percentile(a, q)\<close> with the default linear interpolation: the virtual index
  \<open>(n - 1) * q / 100\<close> into the sorted data, and the two neighbouring items interpolated
  by its fractional part.
\<close>

definition np_percentile :: "real list \<Rightarrow> real \<Rightarrow> py_error + real" where
  "np_percentile a q =
     (let arr = sort a; n = length arr in
      if q < 0 \<or> 100 < q then Inl ValueError
      else if n = 0 then Inl IndexError
      else
        let virtual_index = real (n - 1) * (q / 100);
            previous = nat \<lfloor>virtual_index\<rfloor>;
            following = min (previous + 1) (n - 1);
            gamma = virtual_index - real previous
        in Inr (arr ! previous + (arr ! following - arr ! previous) * gamma))"

definition Q1_PERCENTILE :: real where
  "Q1_PERCENTILE = 25"

definition Q3_PERCENTILE :: real where
  "Q3_PERCENTILE = 75"

record metrics =
  mean :: real
  median :: real
  std_dev :: real
  variance :: real
  min_value :: real
  max_value :: real
  range_value :: real
  q1 :: real
  q3 :: real
  iqr :: real

text \<open>
  The dictionary of \<^verbatim>\<open>_calculate_statistical_metrics\<close>, its entries evaluated in the
  order they are written; the first call that raises ends the evaluation.
\<close>

definition calculate_statistical_metrics :: "real list \<Rightarrow> py_error + metrics" where
  "calculate_statistical_metrics errors =
     and_then (statistics_mean errors) (\<lambda>v_mean.
     and_then (statistics_median errors) (\<lambda>v_median.
     and_then (statistics_stdev errors) (\<lambda>v_std_dev.
     and_then (statistics_variance errors) (\<lambda>v_variance.
     and_then (py_min errors) (\<lambda>v_min.
     and_then (py_max errors) (\<lambda>v_max.
     and_then (py_max errors) (\<lambda>range_max.
     and_then (py_min errors) (\<lambda>range_min.
     and_then (np_percentile errors Q1_PERCENTILE) (\<lambda>v_q1.
     and_then (np_percentile errors Q3_PERCENTILE) (\<lambda>v_q3.
     and_then (np_percentile errors Q3_PERCENTILE) (\<lambda>iqr_q3.
     and_then (np_percentile errors Q1_PERCENTILE) (\<lambda>iqr_q1.
       Inr \<lparr>mean = v_mean, median = v_median, std_dev = v_std_dev, variance = v_variance,
            min_value = v_min, max_value = v_max, range_value = range_max - range_min,
            q1 = v_q1, q3 = v_q3, iqr = iqr_q3 - iqr_q1\<rparr>))))))))))))"

text \<open>
  The entry \<^verbatim>\<open>"range": max(errors) - min(errors)\<close> on binary64 values, the
  subtraction rounded.
\<close>

definition range_entry_binary64 :: "real list \<Rightarrow> py_error + real" where
  "range_entry_binary64 errors =
     and_then (py_max errors) (\<lambda>range_max.
     and_then (py_min errors) (\<lambda>range_min. Inr (float_sub range_max range_min)))"

text \<open>
  The entry \<^verbatim>\<open>"mean": statistics.mean(errors)\<close> on binary64 values: the module adds
  the data exactly, as fractions, and rounds the quotient once.
\<close>

definition mean_entry_binary64 :: "real list \<Rightarrow> py_error + real" where
  "mean_entry_binary64 errors = and_then (statistics_mean errors) (\<lambda>v_mean. Inr (binary64 v_mean))"

section \<open>Thresholds, precision counts and the reliability rating\<close>

datatype ErrorThreshold = EXCEPTIONAL | SUPERIOR | SATISFACTORY

fun threshold_value :: "ErrorThreshold \<Rightarrow> real" where
  "threshold_value EXCEPTIONAL = 1.0"
| "threshold_value SUPERIOR = 5.0"
| "threshold_value SATISFACTORY = 10.0"

definition SETS_COUNT :: nat where
  "SETS_COUNT = 8"

text \<open>\<^verbatim>\<open>sum(1 for e in all_errors if e < threshold)\<close>.\<close>

definition count_below :: "real list \<Rightarrow> real \<Rightarrow> nat" where
  "count_below all_errors threshold = sum_list (map (\<lambda>e. 1) (filter (\<lambda>e. e < threshold) all_errors))"

definition confidence_intervals :: "real list \<Rightarrow> (real \<times> nat) list" where
  "confidence_intervals all_errors =
     [(threshold_value EXCEPTIONAL, count_below all_errors (threshold_value EXCEPTIONAL)),
      (threshold_value SUPERIOR, count_below all_errors (threshold_value SUPERIOR)),
      (threshold_value SATISFACTORY, count_below all_errors (threshold_value SATISFACTORY))]"

text \<open>
  A row of the tolerance table, as numbers: the count, the constant \<^verbatim>\<open>SETS_COUNT\<close>
  printed after it (\<^verbatim>\<open>"{count}/{CSVIndex.SETS_COUNT} datasets"\<close>), and the share
  \<^verbatim>\<open>(count / len(all_errors)) * 100\<close>, a division that raises on an empty list.
  \<^verbatim>\<open>analyze\<close> collects one error for each of the \<^verbatim>\<open>SETS_COUNT\<close> datasets that
  \<^verbatim>\<open>_parse_dataset\<close> returns, so in its runs the printed constant is the length of the
  list.
\<close>

definition tolerance_row :: "real list \<Rightarrow> nat \<Rightarrow> py_error + (nat \<times> nat \<times> real)" where
  "tolerance_row all_errors below =
     (if length all_errors = 0 then Inl ZeroDivisionError
      else Inr (below, SETS_COUNT, real below / real (length all_errors) * 100))"

definition tolerance_table :: "real list \<Rightarrow> py_error + (nat \<times> nat \<times> real) list" where
  "tolerance_table all_errors =
     and_then (tolerance_row all_errors (snd (confidence_intervals all_errors ! 0))) (\<lambda>row0.
     and_then (tolerance_row all_errors (snd (confidence_intervals all_errors ! 1))) (\<lambda>row1.
     and_then (tolerance_row all_errors (snd (confidence_intervals all_errors ! 2))) (\<lambda>row2.
       Inr [row0, row1, row2])))"

text \<open>
  The number of positions of the list whose error is strictly below a threshold.
\<close>

definition strictly_below :: "real list \<Rightarrow> real \<Rightarrow> nat" where
  "strictly_below all_errors threshold = card {i. i < length all_errors \<and> all_errors ! i < threshold}"

text \<open>The rating and its note, chosen from the largest error in step 4 of \<^verbatim>\<open>analyze\<close>.\<close>

definition reliability :: "real \<Rightarrow> string \<times> string" where
  "reliability max_error =
     (if max_error < threshold_value EXCEPTIONAL
      then (''Exceptional'', ''Demonstrates remarkable precision across all datasets'')
      else if max_error < threshold_value SUPERIOR
      then (''Superior'', ''Exhibits excellent consistency across datasets'')
      else if max_error < threshold_value SATISFACTORY
      then (''Satisfactory'', ''Meets all specified precision requirements'')
      else (''Limited'', ''Further optimization recommended''))"

section \<open>Properties of the rounding\<close>

lemma round_half_even_of_int: "round_half_even (of_int k) = k"
  by (simp add: round_half_even_def)

lemma round_half_even_minus: "round_half_even (- x) = - round_half_even x"
proof (cases "x \<in> \<int>")
  case True
  then obtain k where "x = of_int k" by (auto elim: Ints_cases)
  then show ?thesis
    using round_half_even_of_int [of k] round_half_even_of_int [of "- k"] by simp
next
  case False
  then have "x \<noteq> of_int \<lfloor>x\<rfloor>"
    by (metis Ints_of_int)
  then have d: "0 < x - of_int \<lfloor>x\<rfloor>"
    using of_int_floor_le [of x] by linarith
  have fl: "\<lfloor>- x\<rfloor> = - \<lfloor>x\<rfloor> - 1"
    using d by (simp add: floor_eq_iff) linarith
  show ?thesis
    using d unfolding round_half_even_def Let_def fl
    by (auto simp: field_simps)
qed

lemma round_half_even_nonneg: "0 \<le> x \<Longrightarrow> 0 \<le> round_half_even x"
  by (simp add: round_half_even_def Let_def)

lemma binary64_zero: "binary64 0 = 0"
  by (simp add: binary64_def)

lemma binary64_minus: "binary64 (- x) = - binary64 x"
  by (simp add: binary64_def Let_def round_half_even_minus)

lemma binary64_nonneg: "0 \<le> x \<Longrightarrow> 0 \<le> binary64 x"
  by (simp add: binary64_def Let_def round_half_even_nonneg)

lemma binary64_nonpos: "x \<le> 0 \<Longrightarrow> binary64 x \<le> 0"
  using binary64_nonneg [of "- x"] by (simp add: binary64_minus)

text \<open>
  Rounding a number of known binary exponent.
\<close>

lemma binary64_in_binade:
  assumes "2 powr of_int e \<le> \<bar>x\<bar>" and "\<bar>x\<bar> < 2 powr of_int (e + 1)" and "- 1022 \<le> e"
  shows "binary64 x = of_int (round_half_even (x / 2 powr of_int (e - 52))) * 2 powr of_int (e - 52)"
proof -
  have pos: "0 < \<bar>x\<bar>"
    using assms(1) powr_gt_zero [of 2 "of_int e"] by linarith
  then have "\<lfloor>log 2 \<bar>x\<bar>\<rfloor> = e"
    using assms(1,2) by (simp add: floor_log_eq_powr_iff)
  with pos assms(3) show ?thesis
    by (simp add: binary64_def Let_def max_def)
qed

text \<open>
  An integer of magnitude below \<open>2 ^ 53\<close> is a binary64 value.
\<close>

lemma binary64_of_pos_int:
  assumes "0 < m" and "m < 2 ^ 53"
  shows "binary64 (of_int m) = of_int m"
proof -
  define e where "e = \<lfloor>log 2 (of_int m)\<rfloor>"
  have m1: "1 \<le> (of_int m :: real)"
    using assms(1) by simp
  have "0 \<le> log 2 (of_int m)"
    using m1 by simp
  then have e0: "0 \<le> e"
    by (simp add: e_def)
  have "(of_int m :: real) < 2 ^ 53"
    using assms(2) by (metis of_int_less_numeral_power_cancel_iff)
  then have "log 2 (of_int m) < 53"
    using m1 by (simp add: log_less_iff)
  then have e52: "e \<le> 52"
    unfolding e_def by linarith
  define k where "k = nat (52 - e)"
  have "(of_int (e - 52) :: real) = - real k"
    using e52 by (simp add: k_def)
  then have ulp: "(2 :: real) powr of_int (e - 52) = 1 / 2 ^ k"
    by (simp only: powr_minus powr_realpow zero_less_numeral inverse_eq_divide)
  have scaled: "of_int m / (1 / 2 ^ k) = (of_int (m * 2 ^ k) :: real)"
    by simp
  have "2 powr of_int e \<le> \<bar>of_int m :: real\<bar>" "\<bar>of_int m :: real\<bar> < 2 powr of_int (e + 1)"
    using m1 floor_log_eq_powr_iff [of "of_int m" 2 e] by (simp_all add: e_def)
  then have "binary64 (of_int m) = of_int (round_half_even (of_int m / 2 powr of_int (e - 52))) * 2 powr of_int (e - 52)"
    using e0 by (intro binary64_in_binade) simp_all
  also have "\<dots> = of_int (m * 2 ^ k) * (1 / 2 ^ k)"
    unfolding ulp scaled round_half_even_of_int ..
  also have "\<dots> = of_int m"
    by simp
  finally show ?thesis .
qed

lemma binary64_numeral:
  "numeral n < (2 :: int) ^ 53 \<Longrightarrow> binary64 (numeral n) = numeral n"
  using binary64_of_pos_int [of "numeral n"] by simp

lemma binary64_one: "binary64 1 = 1"
  using binary64_of_pos_int [of 1] by simp

text \<open>
  The stored values of the quotients, differences and products that the search computes
  for the pools \<open>[1, 2]\<close> and \<open>[2, 6, 9]\<close> in the examples below.
\<close>

lemma binary64_value_1: "binary64 (1501199875790165 / 4503599627370496) = 1501199875790165 / 4503599627370496"
  using binary64_in_binade [of "- 2" "1501199875790165 / 4503599627370496"]
  by (simp add: round_half_even_def powr_neg_numeral)

lemma binary64_value_2: "binary64 (3002399751580331 / 9007199254740992) = 3002399751580331 / 9007199254740992"
  using binary64_in_binade [of "- 2" "3002399751580331 / 9007199254740992"]
  by (simp add: round_half_even_def powr_neg_numeral)

lemma binary64_value_3: "binary64 (4 / 9) = 2001599834386887 / 4503599627370496"
  using binary64_in_binade [of "- 2" "4 / 9"]
  by (simp add: round_half_even_def powr_neg_numeral)

lemma binary64_value_4: "binary64 (1 / 2) = 1 / 2"
  using binary64_in_binade [of "- 1" "1 / 2"]
  by (simp add: round_half_even_def powr_neg_numeral)

lemma binary64_value_5: "binary64 (2501999792983609 / 4503599627370496) = 2501999792983609 / 4503599627370496"
  using binary64_in_binade [of "- 1" "2501999792983609 / 4503599627370496"]
  by (simp add: round_half_even_def powr_neg_numeral)

lemma binary64_value_6: "binary64 (2 / 3) = 6004799503160661 / 9007199254740992"
  using binary64_in_binade [of "- 1" "2 / 3"]
  by (simp add: round_half_even_def powr_neg_numeral)

lemma binary64_value_7: "binary64 (4 / 3) = 6004799503160661 / 4503599627370496"
  using binary64_in_binade [of 0 "4 / 3"]
  by (simp add: round_half_even_def powr_neg_numeral)

lemma binary64_value_8: "binary64 (3 / 2) = 3 / 2"
  using binary64_in_binade [of 0 "3 / 2"]
  by (simp add: round_half_even_def powr_neg_numeral)

lemma binary64_value_9: "binary64 (25 / 2) = 25 / 2"
  using binary64_in_binade [of 3 "25 / 2"]
  by (simp add: round_half_even_def powr_neg_numeral)

lemma binary64_value_10: "binary64 (27 / 2) = 27 / 2"
  using binary64_in_binade [of 3 "27 / 2"]
  by (simp add: round_half_even_def powr_neg_numeral)

lemma binary64_value_11: "binary64 (37529996894754125 / 1125899906842624) = 2345624805922133 / 70368744177664"
  using binary64_in_binade [of 5 "37529996894754125 / 1125899906842624"]
  by (simp add: round_half_even_def powr_neg_numeral)

lemma binary64_value_12: "binary64 (75059993789508275 / 2251799813685248) = 4691249611844267 / 140737488355328"
  using binary64_in_binade [of 5 "75059993789508275 / 2251799813685248"]
  by (simp add: round_half_even_def powr_neg_numeral)

lemma binary64_value_13: "binary64 (79 / 2) = 79 / 2"
  using binary64_in_binade [of 5 "79 / 2"]
  by (simp add: round_half_even_def powr_neg_numeral)

lemma binary64_value_14: "binary64 (81 / 2) = 81 / 2"
  using binary64_in_binade [of 5 "81 / 2"]
  by (simp add: round_half_even_def powr_neg_numeral)

lemma binary64_value_15: "binary64 (62549994824590225 / 1125899906842624) = 3909374676536889 / 70368744177664"
  using binary64_in_binade [of 5 "62549994824590225 / 1125899906842624"]
  by (simp add: round_half_even_def powr_neg_numeral)

lemmas stored_values = binary64_zero binary64_one binary64_numeral binary64_minus
  binary64_value_1 binary64_value_2 binary64_value_3 binary64_value_4 binary64_value_5 binary64_value_6 binary64_value_7 binary64_value_8 binary64_value_9 binary64_value_10 binary64_value_11 binary64_value_12 binary64_value_13 binary64_value_14 binary64_value_15

lemma pyfloat_of_not_NaN: "pyfloat_of x \<noteq> NaN"
  by (simp add: pyfloat_of_def Let_def)

lemma pyfloat_div_not_NaN: "x \<noteq> NaN \<Longrightarrow> pyfloat_div x b \<noteq> NaN"
  by (cases x) (simp_all add: pyfloat_of_not_NaN)

lemma pyfloat_sub_not_NaN: "x \<noteq> NaN \<Longrightarrow> pyfloat_sub x b \<noteq> NaN"
  by (cases x) (simp_all add: pyfloat_of_not_NaN)

lemma pyfloat_abs_not_NaN: "x \<noteq> NaN \<Longrightarrow> pyfloat_abs x \<noteq> NaN"
  by (cases x) simp_all

lemma pyfloat_mul_not_NaN: "x \<noteq> NaN \<Longrightarrow> b \<noteq> 0 \<Longrightarrow> pyfloat_mul x b \<noteq> NaN"
  by (cases x) (simp_all add: pyfloat_of_not_NaN)

lemma pyfloat_of_nonneg: "0 \<le> x \<Longrightarrow> \<not> pyfloat_less (pyfloat_of x) (Finite 0)"
  using binary64_nonneg [of x] by (simp add: pyfloat_of_def Let_def)

lemma pyfloat_of_nonpos: "x \<le> 0 \<Longrightarrow> \<not> pyfloat_less (Finite 0) (pyfloat_of x)"
  using binary64_nonpos [of x] by (simp add: pyfloat_of_def Let_def)


lemma pyfloat_less_trans:
  "pyfloat_less a b \<Longrightarrow> pyfloat_less b c \<Longrightarrow> pyfloat_less a c"
  by (cases a; cases b; cases c) auto

lemma pyfloat_less_le_trans:
  "pyfloat_less a b \<Longrightarrow> \<not> pyfloat_less c b \<Longrightarrow> c \<noteq> NaN \<Longrightarrow> pyfloat_less a c"
  by (cases a; cases b; cases c) auto

section \<open>Properties of the search\<close>

lemma search_step_unscored: "\<not> scored t \<Longrightarrow> search_step target t s = Inr s"
  by (cases t) simp

lemma search_step_scored:
  "scored t \<Longrightarrow> target \<noteq> 0 \<Longrightarrow>
   search_step target t s =
     (if pyfloat_less (percentage_error target (formula t)) (best_error s)
      then Inr (chosen target t) else Inr s)"
  by (cases t) (simp add: chosen_def percentage_error_def Let_def)

lemma search_step_zero_target:
  "scored t \<Longrightarrow> search_step 0 t s = Inl ZeroDivisionError"
  by (cases t) simp

text \<open>
  No scored triple of the list beats the current best: the state stays.
\<close>

lemma search_loop_keep:
  assumes "target \<noteq> 0"
    and "\<forall>u\<in>set ts. scored u \<longrightarrow> \<not> pyfloat_less (percentage_error target (formula u)) (best_error s)"
  shows "search_loop target ts s = Inr s"
  using assms
proof (induction ts)
  case Nil
  then show ?case by simp
next
  case (Cons t ts)
  then show ?case
    by (cases "scored t") (simp_all add: search_step_scored search_step_unscored)
qed

text \<open>
  The loop returns the first scored triple of least error, when that error beats the
  best error at the start.
\<close>

lemma search_loop_first_min:
  assumes "target \<noteq> 0" and "scored t"
    and "pyfloat_less (percentage_error target (formula t)) (best_error s)"
    and "\<forall>u\<in>set pre. scored u \<longrightarrow>
           pyfloat_less (percentage_error target (formula t)) (percentage_error target (formula u))"
    and "\<forall>u\<in>set post. scored u \<longrightarrow>
           \<not> pyfloat_less (percentage_error target (formula u)) (percentage_error target (formula t))"
  shows "search_loop target (pre @ t # post) s = Inr (chosen target t)"
  using assms
proof (induction pre arbitrary: s)
  case Nil
  have "search_loop target post (chosen target t) = Inr (chosen target t)"
    using Nil.prems(1,5) by (intro search_loop_keep) (auto simp: chosen_def)
  with Nil show ?case
    by (simp add: search_step_scored)
next
  case (Cons x pre)
  show ?case
  proof (cases "scored x")
    case False
    with Cons show ?thesis by (simp add: search_step_unscored)
  next
    case True
    with Cons.prems have lt: "pyfloat_less (percentage_error target (formula t))
        (percentage_error target (formula x))"
      by simp
    then have "pyfloat_less (percentage_error target (formula t)) (best_error (chosen target x))"
      by (simp add: chosen_def)
    with Cons True show ?thesis
      by (simp add: search_step_scored)
  qed
qed

lemma search_loop_none_scored:
  "\<forall>u\<in>set ts. \<not> scored u \<Longrightarrow> search_loop target ts s = Inr s"
  by (induction ts) (simp_all add: search_step_unscored)

lemma search_loop_zero_target:
  "\<exists>u\<in>set ts. scored u \<Longrightarrow> search_loop 0 ts s = Inl ZeroDivisionError"
proof (induction ts)
  case Nil
  then show ?case by simp
next
  case (Cons t ts)
  then show ?case
    by (cases "scored t") (auto simp: search_step_zero_target search_step_unscored)
qed

text \<open>
  A list with a scored triple has a first scored triple of least value.
\<close>

lemma first_min_exists:
  fixes f :: "combination \<Rightarrow> pyfloat"
  assumes "\<exists>u\<in>set ts. scored u" and "\<forall>u. f u \<noteq> NaN"
  shows "\<exists>pre t post. ts = pre @ t # post \<and> scored t
           \<and> (\<forall>u\<in>set pre. scored u \<longrightarrow> pyfloat_less (f t) (f u))
           \<and> (\<forall>u\<in>set post. scored u \<longrightarrow> \<not> pyfloat_less (f u) (f t))"
  using assms(1)
proof (induction ts)
  case Nil
  then show ?case by simp
next
  case (Cons x ts)
  show ?case
  proof (cases "\<exists>u\<in>set ts. scored u")
    case False
    with Cons.prems have "scored x" by auto
    with False have "x # ts = [] @ x # ts \<and> scored x
        \<and> (\<forall>u\<in>set []. scored u \<longrightarrow> pyfloat_less (f x) (f u))
        \<and> (\<forall>u\<in>set ts. scored u \<longrightarrow> \<not> pyfloat_less (f u) (f x))"
      by auto
    then show ?thesis by blast
  next
    case True
    from Cons.IH [OF True] obtain pre t post where d: "ts = pre @ t # post" "scored t"
      "\<forall>u\<in>set pre. scored u \<longrightarrow> pyfloat_less (f t) (f u)"
      "\<forall>u\<in>set post. scored u \<longrightarrow> \<not> pyfloat_less (f u) (f t)"
      by blast
    show ?thesis
    proof (cases "scored x \<and> \<not> pyfloat_less (f t) (f x)")
      case True
      have "\<not> pyfloat_less (f u) (f x)" if "u \<in> set ts" "scored u" for u
      proof
        assume less: "pyfloat_less (f u) (f x)"
        have "f t \<noteq> NaN"
          using assms(2) by blast
        with less True have ut: "pyfloat_less (f u) (f t)"
          using pyfloat_less_le_trans [of "f u" "f x" "f t"] by blast
        from that d(1) consider "u \<in> set pre" | "u = t" | "u \<in> set post" by auto
        then show False
        proof cases
          case 1
          with d(3) that(2) have "pyfloat_less (f t) (f u)" by simp
          from pyfloat_less_trans [OF this less] True show False by simp
        next
          case 2
          with less True show False by simp
        next
          case 3
          with d(4) that(2) ut show False by simp
        qed
      qed
      with True have "x # ts = [] @ x # ts \<and> scored x
        \<and> (\<forall>u\<in>set []. scored u \<longrightarrow> pyfloat_less (f x) (f u))
        \<and> (\<forall>u\<in>set ts. scored u \<longrightarrow> \<not> pyfloat_less (f u) (f x))"
        by simp
      then show ?thesis by blast
    next
      case False
      with d have "x # ts = (x # pre) @ t # post \<and> scored t
        \<and> (\<forall>u\<in>set (x # pre). scored u \<longrightarrow> pyfloat_less (f t) (f u))
        \<and> (\<forall>u\<in>set post. scored u \<longrightarrow> \<not> pyfloat_less (f u) (f t))"
        by auto
      then show ?thesis by blast
    qed
  qed
qed

lemma set_product3: "set (product3 xs) = {(a, b, c). a \<in> set xs \<and> b \<in> set xs \<and> c \<in> set xs}"
  by (auto simp: product3_def)

lemma scored_product3: "(\<exists>u\<in>set (product3 numbers). scored u) \<longleftrightarrow> (\<exists>n\<in>set numbers. n \<noteq> 0)"
  by (auto simp: set_product3)

lemma search_loop_combination:
  "search_loop target ts s = Inr s' \<Longrightarrow> best_combination s' = Some t \<Longrightarrow>
   best_combination s = Some t \<or> (t \<in> set ts \<and> scored t)"
proof (induction ts arbitrary: s)
  case Nil
  then show ?case by simp
next
  case (Cons x ts)
  obtain n1 n2 n3 where x: "x = (n1, n2, n3)" by (cases x)
  from Cons.prems(1) obtain s1 where s1: "search_step target x s = Inr s1"
    and rest: "search_loop target ts s1 = Inr s'"
    by (auto split: sum.splits)
  from Cons.IH [OF rest Cons.prems(2)]
  have "best_combination s1 = Some t \<or> (t \<in> set ts \<and> scored t)" .
  moreover have "best_combination s1 = Some t \<Longrightarrow> best_combination s = Some t \<or> (t = x \<and> scored x)"
    using s1 unfolding x by (auto simp: Let_def split: if_splits)
  ultimately show ?case by auto
qed

lemma search_loop_filter:
  "search_loop target ts s = search_loop target (filter scored ts) s"
proof (induction ts arbitrary: s)
  case Nil
  then show ?case by simp
next
  case (Cons x ts)
  then show ?case
    by (cases "scored x") (simp_all add: search_step_unscored split: sum.splits)
qed

text \<open>
  The computed result and error of a triple are never NaN: the operands of the search
  are finite, and an infinity is multiplied by 100 only.
\<close>

lemma formula_not_NaN: "formula t \<noteq> NaN"
  by (cases t) (simp add: pyfloat_div_not_NaN pyfloat_of_not_NaN)

lemma percentage_error_not_NaN: "percentage_error target (formula t) \<noteq> NaN"
  unfolding percentage_error_def
  by (intro pyfloat_mul_not_NaN pyfloat_div_not_NaN pyfloat_abs_not_NaN pyfloat_sub_not_NaN
      formula_not_NaN) simp

lemma percentage_error_nonneg:
  assumes "0 < target"
  shows "\<not> pyfloat_less (percentage_error target result) (Finite 0)"
proof -
  have a: "\<not> pyfloat_less (pyfloat_abs (pyfloat_sub result target)) (Finite 0)"
    by (cases "pyfloat_sub result target") simp_all
  have d: "\<not> pyfloat_less (pyfloat_div x target) (Finite 0)" if "\<not> pyfloat_less x (Finite 0)" for x
    using that assms by (cases x) (simp_all add: pyfloat_of_nonneg)
  have m: "\<not> pyfloat_less (pyfloat_mul x 100) (Finite 0)" if "\<not> pyfloat_less x (Finite 0)" for x
    using that by (cases x) (simp_all add: pyfloat_of_nonneg)
  show ?thesis
    unfolding percentage_error_def by (intro m d a)
qed

lemma percentage_error_nonpos:
  assumes "target < 0"
  shows "\<not> pyfloat_less (Finite 0) (percentage_error target result)"
proof -
  have a: "\<not> pyfloat_less (pyfloat_abs (pyfloat_sub result target)) (Finite 0)"
    by (cases "pyfloat_sub result target") simp_all
  have d: "\<not> pyfloat_less (Finite 0) (pyfloat_div x target)" if "\<not> pyfloat_less x (Finite 0)" for x
    using that assms by (cases x) (simp_all add: pyfloat_of_nonpos divide_nonneg_neg)
  have m: "\<not> pyfloat_less (Finite 0) (pyfloat_mul x 100)" if "\<not> pyfloat_less (Finite 0) x" for x
    using that by (cases x) (simp_all add: pyfloat_of_nonpos)
  show ?thesis
    unfolding percentage_error_def by (intro m d a)
qed

text \<open>
  For a nonzero target and a pool with a scored triple whose computed error is not the
  infinity, the search returns a scored triple of the product with its computed result
  and error, no scored triple has a smaller computed error, and for a positive target
  the error is not negative.
\<close>

lemma nonzero_target_error_minimal:
  assumes "target \<noteq> 0"
    and "\<exists>u\<in>set (product3 numbers). scored u \<and> pyfloat_less (percentage_error target (formula u)) PInf"
  shows "\<exists>t. t \<in> set (product3 numbers) \<and> scored t
           \<and> find_best_combination numbers target =
               Inr (Some (formula t), percentage_error target (formula t), Some t)
           \<and> (\<forall>u\<in>set (product3 numbers). scored u \<longrightarrow>
                 \<not> pyfloat_less (percentage_error target (formula u)) (percentage_error target (formula t)))
           \<and> (0 < target \<longrightarrow> \<not> pyfloat_less (percentage_error target (formula t)) (Finite 0))"
proof -
  from assms(2) obtain w where w: "w \<in> set (product3 numbers)" "scored w"
    "pyfloat_less (percentage_error target (formula w)) PInf"
    by blast
  then have "\<exists>u\<in>set (product3 numbers). scored u" by blast
  from first_min_exists [OF this, of "\<lambda>u. percentage_error target (formula u)"]
  obtain pre t post where d: "product3 numbers = pre @ t # post" "scored t"
    "\<forall>u\<in>set pre. scored u \<longrightarrow>
       pyfloat_less (percentage_error target (formula t)) (percentage_error target (formula u))"
    "\<forall>u\<in>set post. scored u \<longrightarrow>
       \<not> pyfloat_less (percentage_error target (formula u)) (percentage_error target (formula t))"
    using percentage_error_not_NaN by blast
  have least: "\<not> pyfloat_less (percentage_error target (formula u)) (percentage_error target (formula t))"
    if "u \<in> set (product3 numbers)" "scored u" for u
  proof -
    from that(1) d(1) consider "u \<in> set pre" | "u = t" | "u \<in> set post" by auto
    then show ?thesis
    proof cases
      case 1
      with d(3) that(2)
      have "pyfloat_less (percentage_error target (formula t)) (percentage_error target (formula u))"
        by simp
      then show ?thesis
        by (cases "percentage_error target (formula t)"; cases "percentage_error target (formula u)") auto
    next
      case 2
      then show ?thesis
        by (cases "percentage_error target (formula t)") auto
    next
      case 3
      with d(4) that(2) show ?thesis by simp
    qed
  qed
  have "pyfloat_less (percentage_error target (formula t)) PInf"
    using w(3) least [OF w(1,2)] percentage_error_not_NaN [of target t]
    by (cases "percentage_error target (formula t)"; cases "percentage_error target (formula w)") auto
  then have "search_loop target (pre @ t # post) initial_state = Inr (chosen target t)"
    using assms(1) d(2,3,4) by (intro search_loop_first_min) (simp_all add: initial_state_def)
  then have "find_best_combination numbers target =
      Inr (Some (formula t), percentage_error target (formula t), Some t)"
    by (simp add: find_best_combination_def d(1) chosen_def)
  moreover have "t \<in> set (product3 numbers)"
    by (simp add: d(1))
  ultimately show ?thesis
    using d(2) least percentage_error_nonneg by blast
qed

text \<open>
  For a negative target the returned error is never positive.
\<close>

lemma negative_target_error_nonpositive:
  assumes "target < 0"
    and "\<exists>u\<in>set (product3 numbers). scored u \<and> pyfloat_less (percentage_error target (formula u)) PInf"
  shows "\<exists>r e c. find_best_combination numbers target = Inr (r, e, c) \<and> \<not> pyfloat_less (Finite 0) e"
proof -
  from assms(1) have "target \<noteq> 0" by simp
  from nonzero_target_error_minimal [OF this assms(2)]
  obtain t where "find_best_combination numbers target =
      Inr (Some (formula t), percentage_error target (formula t), Some t)"
    by blast
  with percentage_error_nonpos [OF assms(1)] show ?thesis
    by blast
qed

text \<open>
  Claim C1, at a negative target. The division by the signed target makes every error
  non-positive, so the returned error is negative and the strict comparison keeps the
  triple farthest from the target: for the pool \<open>[1, 2]\<close> and target \<open>-1\<close> the search
  returns \<open>(2, 2, 1)\<close> with result 4 and error \<open>-500\<close>.
\<close>

theorem negative_target_returns_farthest:
  "find_best_combination [1, 2] (- 1) = Inr (Some (Finite 4), Finite (- 500), Some (2, 2, 1))"
  by (simp add: find_best_combination_def product3_def initial_state_def pyfloat_of_def stored_values)

text \<open>
  Claim C2, at the all-zero pool. Every triple is skipped, no error is raised, and the
  initial values \<^verbatim>\<open>(None, inf, None)\<close> are returned.
\<close>

theorem all_zero_pool_returns_none:
  "find_best_combination [0, 0, 0] target = Inr (None, PInf, None)"
  by (simp add: find_best_combination_def product3_def initial_state_def)

text \<open>
  Claim C3. A triple whose third component is zero is skipped entirely: the loop body
  leaves the state as it is and raises nothing (for every target, also zero), the
  search gives the same outcome as the search over the triples with \<open>n3 \<noteq> 0\<close> alone,
  and a returned best combination never has a zero third component.
\<close>

theorem zero_divisor_triples_skipped:
  "search_step target (n1, n2, 0) s = Inr s
   \<and> search_loop target ts s = search_loop target (filter scored ts) s
   \<and> (find_best_combination numbers target = Inr (r, e, Some (a, b, c)) \<longrightarrow> c \<noteq> 0)"
proof -
  have "c \<noteq> 0" if "find_best_combination numbers target = Inr (r, e, Some (a, b, c))"
  proof -
    from that obtain s' where "search_loop target (product3 numbers) initial_state = Inr s'"
      and "best_combination s' = Some (a, b, c)"
      by (auto simp: find_best_combination_def split: sum.splits)
    from search_loop_combination [OF this] show ?thesis
      by (simp add: initial_state_def)
  qed
  then show ?thesis
    using search_loop_filter by simp
qed

text \<open>
  The pool \<open>[0, 2]\<close> with target 2: the four triples ending in 0 are skipped and
  \<open>(2, 2, 2)\<close> is returned.
\<close>

theorem zero_divisor_triples_skipped_witness:
  "search_step 2 (1, 2, 0) initial_state = Inr initial_state
   \<and> search_loop 2 [(1, 2, 0), (1, 2, 1)] initial_state = search_loop 2 [(1, 2, 1)] initial_state
   \<and> find_best_combination [0, 2] 2 = Inr (Some (Finite 2), Finite 0, Some (2, 2, 2))
   \<and> (2::real) \<noteq> 0"
  using zero_divisor_triples_skipped [of 2 1 2 initial_state "[(1, 2, 0), (1, 2, 1)]" "[0, 2]"
      "Some (Finite 2)" "Finite 0" 2 2 2]
  by (simp add: find_best_combination_def product3_def initial_state_def pyfloat_of_def stored_values)


text \<open>
  The computed errors of three triples of the pool \<open>[2, 6, 9]\<close> for the target 1. All
  three are a third of a hundred in exact arithmetic; as floats, \<open>(2, 6, 9)\<close> and
  \<open>(6, 2, 9)\<close> give \<^verbatim>\<open>33.33333333333333\<close> and \<open>(2, 2, 6)\<close> gives
  \<^verbatim>\<open>33.333333333333336\<close>.
\<close>

lemma rounded_errors_example:
  "percentage_error 1 (formula (2, 2, 6)) = Finite (4691249611844267 / 140737488355328)"
  "percentage_error 1 (formula (2, 6, 9)) = Finite (2345624805922133 / 70368744177664)"
  "percentage_error 1 (formula (6, 2, 9)) = Finite (2345624805922133 / 70368744177664)"
  by (simp_all add: percentage_error_def pyfloat_of_def stored_values)

lemma product3_example:
  "product3 [2, 6, 9 :: real] =
     [(2, 2, 2), (2, 2, 6), (2, 2, 9), (2, 6, 2), (2, 6, 6)] @ (2, 6, 9) #
     [(2, 9, 2), (2, 9, 6), (2, 9, 9),
      (6, 2, 2), (6, 2, 6), (6, 2, 9), (6, 6, 2), (6, 6, 6), (6, 6, 9), (6, 9, 2), (6, 9, 6), (6, 9, 9),
      (9, 2, 2), (9, 2, 6), (9, 2, 9), (9, 6, 2), (9, 6, 6), (9, 6, 9), (9, 9, 2), (9, 9, 6), (9, 9, 9)]"
  by (simp add: product3_def)


text \<open>
  With target zero and a pool that holds a nonzero number, the division by the target
  raises \<^verbatim>\<open>ZeroDivisionError\<close> at the first scored triple.
\<close>

lemma zero_target_raises:
  "\<exists>n\<in>set numbers. n \<noteq> 0 \<Longrightarrow> find_best_combination numbers 0 = Inl ZeroDivisionError"
  by (simp add: find_best_combination_def search_loop_zero_target scored_product3)

text \<open>
  Claim C5, at target zero and the pool \<open>[0]\<close>. No triple is scored, so no division by
  the target takes place: nothing is raised, and the returned error is the initial
  \<^verbatim>\<open>inf\<close>.
\<close>

theorem zero_target_zero_pool_returns_silently:
  "find_best_combination [0] 0 = Inr (None, PInf, None)"
  by (simp add: find_best_combination_def product3_def initial_state_def)

section \<open>Properties of the statistics\<close>

lemma py_min_Min: "xs \<noteq> [] \<Longrightarrow> py_min xs = Inr (Min (set xs))"
proof (cases xs)
  case Nil
  assume "xs \<noteq> []"
  with Nil show ?thesis by simp
next
  case (Cons x ys)
  have "(\<lambda>item current. if item < current then item else current) = (min :: real \<Rightarrow> real \<Rightarrow> real)"
    by (intro ext) (simp add: min_def)
  with Cons show ?thesis
    using Min.set_eq_fold [of x ys] by simp
qed

lemma py_max_Max: "xs \<noteq> [] \<Longrightarrow> py_max xs = Inr (Max (set xs))"
proof (cases xs)
  case Nil
  assume "xs \<noteq> []"
  with Nil show ?thesis by simp
next
  case (Cons x ys)
  have "(\<lambda>item current. if current < item then item else current) = (max :: real \<Rightarrow> real \<Rightarrow> real)"
    by (intro ext) (simp add: max_def)
  with Cons show ?thesis
    using Max.set_eq_fold [of x ys] by simp
qed

lemma sort_not_Nil: "xs \<noteq> [] \<Longrightarrow> sort xs \<noteq> []"
  using length_sort [of "\<lambda>x. x" xs] by (metis length_0_conv)

lemma statistics_median_defined:
  "xs \<noteq> [] \<Longrightarrow> \<not> isl (statistics_median xs)"
  by (simp add: statistics_median_def Let_def sort_not_Nil)

lemma np_percentile_defined:
  "xs \<noteq> [] \<Longrightarrow> 0 \<le> q \<Longrightarrow> q \<le> 100 \<Longrightarrow> \<not> isl (np_percentile xs q)"
  by (simp add: np_percentile_def Let_def sort_not_Nil)

text \<open>
  On two values or more every entry is computed, and the record holds the sample
  formulas.
\<close>

lemma metrics_values:
  assumes "2 \<le> length errors"
  shows "\<exists>m. calculate_statistical_metrics errors = Inr m
           \<and> mean m = sum_list errors / real (length errors)
           \<and> statistics_median errors = Inr (median m)
           \<and> variance m = (\<Sum>x\<leftarrow>errors. (x - mean m)\<^sup>2) / real (length errors - 1)
           \<and> std_dev m = sqrt (variance m)
           \<and> min_value m = Min (set errors)
           \<and> max_value m = Max (set errors)
           \<and> range_value m = max_value m - min_value m
           \<and> np_percentile errors 25 = Inr (q1 m)
           \<and> np_percentile errors 75 = Inr (q3 m)
           \<and> iqr m = q3 m - q1 m"
proof -
  from assms have ne: "errors \<noteq> []" by auto
  from assms have len: "\<not> length errors < 2" "\<not> length errors < 1" by auto
  obtain v_median where med: "statistics_median errors = Inr v_median"
    using statistics_median_defined [OF ne] by (cases "statistics_median errors") simp_all
  obtain v_q1 where p1: "np_percentile errors 25 = Inr v_q1"
    using np_percentile_defined [OF ne, of 25] by (cases "np_percentile errors 25") simp_all
  obtain v_q3 where p3: "np_percentile errors 75 = Inr v_q3"
    using np_percentile_defined [OF ne, of 75] by (cases "np_percentile errors 75") simp_all
  show ?thesis
    using len
    by (simp add: calculate_statistical_metrics_def and_then_def statistics_mean_def
      statistics_stdev_def statistics_variance_def sum_of_squares_def med p1 p3
      Q1_PERCENTILE_def Q3_PERCENTILE_def py_min_Min [OF ne] py_max_Max [OF ne] Let_def)
qed

lemma empty_raises:
  "calculate_statistical_metrics [] = Inl StatisticsError"
  by (simp add: calculate_statistical_metrics_def and_then_def statistics_mean_def)

text \<open>
  Claim C6. On a list of exactly one value no record is produced: \<^verbatim>\<open>statistics.stdev\<close>
  raises \<^verbatim>\<open>StatisticsError\<close> (the sample standard deviation needs two values), after
  the mean and the median have been computed.
\<close>

theorem single_value_raises:
  "calculate_statistical_metrics [x] = Inl StatisticsError"
  by (simp add: calculate_statistical_metrics_def and_then_def statistics_mean_def
      statistics_median_def statistics_stdev_def)

text \<open>
  The list \<open>[2.5]\<close>.
\<close>

theorem single_value_raises_witness:
  "calculate_statistical_metrics [2.5] = Inl StatisticsError"
  using single_value_raises [of "2.5"] by simp

text \<open>
  The docstring's example, in exact arithmetic.
\<close>

lemma example_metrics:
  "calculate_statistical_metrics [1.2, 2.3, 0.8, 1.5] =
     Inr \<lparr>mean = 1.45, median = 1.35, std_dev = sqrt (121 / 300), variance = 121 / 300,
          min_value = 0.8, max_value = 2.3, range_value = 1.5,
          q1 = 1.1, q3 = 1.7, iqr = 0.6\<rparr>"
  by (simp add: calculate_statistical_metrics_def and_then_def statistics_mean_def
      statistics_median_def statistics_stdev_def statistics_variance_def sum_of_squares_def
      np_percentile_def Q1_PERCENTILE_def Q3_PERCENTILE_def power2_eq_square)

lemma binary64_1_2: "binary64 1.2 = 5404319552844595 / 2 ^ 52"
  using binary64_in_binade [of 0 "1.2"]
  by (simp add: round_half_even_def powr_neg_numeral)

lemma binary64_2_3: "binary64 2.3 = 5179139571476070 / 2 ^ 51"
  using binary64_in_binade [of 1 "2.3"]
  by (simp add: round_half_even_def powr_neg_numeral)

lemma binary64_0_8: "binary64 0.8 = 7205759403792794 / 2 ^ 53"
  using binary64_in_binade [of "-1" "0.8"]
  by (simp add: round_half_even_def powr_neg_numeral)

lemma binary64_1_5: "binary64 1.5 = 3 / 2"
  using binary64_in_binade [of 0 "1.5"]
  by (simp add: round_half_even_def powr_neg_numeral)

lemma binary64_1_45: "binary64 1.45 = 6530219459687219 / 2 ^ 52"
  using binary64_in_binade [of 0 "1.45"]
  by (simp add: round_half_even_def powr_neg_numeral)

lemma binary64_difference: "binary64 (6755399441055743 / 2 ^ 52) = 6755399441055743 / 2 ^ 52"
  using binary64_in_binade [of 0 "6755399441055743 / 2 ^ 52"]
  by (simp add: round_half_even_def powr_neg_numeral)

lemma binary64_mean: "binary64 (6530219459687219 / 2 ^ 52) = 6530219459687219 / 2 ^ 52"
  using binary64_in_binade [of 0 "6530219459687219 / 2 ^ 52"]
  by (simp add: round_half_even_def powr_neg_numeral)

lemma stored_example:
  "map binary64 [1.2, 2.3, 0.8, 1.5] =
     [5404319552844595 / 2 ^ 52, 5179139571476070 / 2 ^ 51, 7205759403792794 / 2 ^ 53, 3 / 2]"
  unfolding list.map binary64_1_2 binary64_2_3 binary64_0_8 binary64_1_5 by (rule refl)

text \<open>
  On the stored values the exact mean is itself a binary64 value, the one nearest to
  \<open>1.45\<close>, and the smallest and largest items are the stored \<open>0.8\<close> and \<open>2.3\<close>.
\<close>

lemma float_entries_example:
  "mean_entry_binary64 (map binary64 [1.2, 2.3, 0.8, 1.5]) = Inr (binary64 1.45)
   \<and> py_min (map binary64 [1.2, 2.3, 0.8, 1.5]) = Inr (binary64 0.8)
   \<and> py_max (map binary64 [1.2, 2.3, 0.8, 1.5]) = Inr (binary64 2.3)"
proof -
  have average: "statistics_mean [5404319552844595 / 2 ^ 52, 5179139571476070 / 2 ^ 51,
      7205759403792794 / 2 ^ 53, 3 / 2] = Inr (6530219459687219 / 2 ^ 52)"
    by (simp add: statistics_mean_def)
  have largest: "py_max [5404319552844595 / 2 ^ 52, 5179139571476070 / 2 ^ 51,
      7205759403792794 / 2 ^ 53, 3 / 2] = Inr (5179139571476070 / 2 ^ 51)"
    by simp
  have smallest: "py_min [5404319552844595 / 2 ^ 52, 5179139571476070 / 2 ^ 51,
      7205759403792794 / 2 ^ 53, 3 / 2] = Inr (7205759403792794 / 2 ^ 53)"
    by simp
  show ?thesis
    unfolding mean_entry_binary64_def and_then_def stored_example average largest smallest
      sum.case binary64_mean binary64_1_45 binary64_0_8 binary64_2_3
    by simp
qed

text \<open>
  The stored values of \<open>2.3\<close> and \<open>0.8\<close> lie below and above the decimals, and their
  difference is the binary64 value just below \<open>1.5\<close>.
\<close>

lemma range_entry_example:
  "range_entry_binary64 (map binary64 [1.2, 2.3, 0.8, 1.5]) = Inr (6755399441055743 / 2 ^ 52)"
proof -
  have stored: "map binary64 [1.2, 2.3, 0.8, 1.5] =
      [5404319552844595 / 2 ^ 52, 5179139571476070 / 2 ^ 51, 7205759403792794 / 2 ^ 53, 3 / 2]"
    unfolding list.map binary64_1_2 binary64_2_3 binary64_0_8 binary64_1_5 by (rule refl)
  have largest: "py_max [5404319552844595 / 2 ^ 52, 5179139571476070 / 2 ^ 51,
      7205759403792794 / 2 ^ 53, 3 / 2] = Inr (5179139571476070 / 2 ^ 51)"
    by simp
  have smallest: "py_min [5404319552844595 / 2 ^ 52, 5179139571476070 / 2 ^ 51,
      7205759403792794 / 2 ^ 53, 3 / 2] = Inr (7205759403792794 / 2 ^ 53)"
    by simp
  have difference: "5179139571476070 / 2 ^ 51 - 7205759403792794 / 2 ^ 53
      = (6755399441055743 / 2 ^ 52 :: real)"
    by simp
  show ?thesis
    unfolding range_entry_binary64_def and_then_def stored largest smallest sum.case
      float_sub_def difference binary64_difference
    by (rule refl)
qed

text \<open>
  Claim C9, as amended. In exact arithmetic the example list gives mean \<open>1.45\<close>, minimum
  \<open>0.8\<close>, maximum \<open>2.3\<close> and range \<open>1.5\<close>. On the binary64 values of the same list the
  mean, the minimum and the maximum are the floats \<open>1.45\<close>, \<open>0.8\<close> and \<open>2.3\<close>, and the
  rounded subtraction of the range entry gives \<open>1.5 - 2 powr -52\<close>. For every list of at
  least two values the record is computed, its variance is the sum of squared deviations
  from the mean divided by \<open>n - 1\<close>, its standard deviation the square root of that,
  its range the largest minus the smallest value, and its interquartile range the 75th
  minus the 25th percentile.
\<close>

theorem metrics_example_and_sample_formulas:
  "(\<exists>m. calculate_statistical_metrics [1.2, 2.3, 0.8, 1.5] = Inr m
        \<and> mean m = 1.45 \<and> min_value m = 0.8 \<and> max_value m = 2.3 \<and> range_value m = 1.5)
   \<and> mean_entry_binary64 (map binary64 [1.2, 2.3, 0.8, 1.5]) = Inr (binary64 1.45)
   \<and> py_min (map binary64 [1.2, 2.3, 0.8, 1.5]) = Inr (binary64 0.8)
   \<and> py_max (map binary64 [1.2, 2.3, 0.8, 1.5]) = Inr (binary64 2.3)
   \<and> range_entry_binary64 (map binary64 [1.2, 2.3, 0.8, 1.5]) = Inr (3 / 2 - 1 / 2 ^ 52)
   \<and> (2 \<le> length errors \<longrightarrow>
        (\<exists>m. calculate_statistical_metrics errors = Inr m
           \<and> mean m = sum_list errors / real (length errors)
           \<and> variance m = (\<Sum>x\<leftarrow>errors. (x - mean m)\<^sup>2) / real (length errors - 1)
           \<and> std_dev m = sqrt (variance m)
           \<and> min_value m = Min (set errors)
           \<and> max_value m = Max (set errors)
           \<and> range_value m = max_value m - min_value m
           \<and> np_percentile errors 25 = Inr (q1 m)
           \<and> np_percentile errors 75 = Inr (q3 m)
           \<and> iqr m = q3 m - q1 m))"
proof -
  have exact: "\<exists>m. calculate_statistical_metrics [1.2, 2.3, 0.8, 1.5] = Inr m
        \<and> mean m = 1.45 \<and> min_value m = 0.8 \<and> max_value m = 2.3 \<and> range_value m = 1.5"
    using example_metrics by simp
  have rounded: "range_entry_binary64 (map binary64 [1.2, 2.3, 0.8, 1.5]) = Inr (3 / 2 - 1 / 2 ^ 52)"
    unfolding range_entry_example by simp
  have formulas: "2 \<le> length errors \<longrightarrow> (\<exists>m. calculate_statistical_metrics errors = Inr m
           \<and> mean m = sum_list errors / real (length errors)
           \<and> variance m = (\<Sum>x\<leftarrow>errors. (x - mean m)\<^sup>2) / real (length errors - 1)
           \<and> std_dev m = sqrt (variance m)
           \<and> min_value m = Min (set errors)
           \<and> max_value m = Max (set errors)
           \<and> range_value m = max_value m - min_value m
           \<and> np_percentile errors 25 = Inr (q1 m)
           \<and> np_percentile errors 75 = Inr (q3 m)
           \<and> iqr m = q3 m - q1 m)"
    using metrics_values [of errors] by blast
  note stored = float_entries_example [THEN conjunct1]
    float_entries_example [THEN conjunct2, THEN conjunct1]
    float_entries_example [THEN conjunct2, THEN conjunct2]
  from exact stored rounded formulas show ?thesis
    by (intro conjI) assumption+
qed

text \<open>
  The list \<open>[1, 3]\<close>: two values, with variance 2.
\<close>

theorem metrics_example_and_sample_formulas_witness:
  "calculate_statistical_metrics [1, 3] =
     Inr \<lparr>mean = 2, median = 2, std_dev = sqrt 2, variance = 2, min_value = 1, max_value = 3,
          range_value = 2, q1 = 3 / 2, q3 = 5 / 2, iqr = 1\<rparr>"
  using metrics_example_and_sample_formulas [of "[1, 3]"]
  by (simp add: calculate_statistical_metrics_def and_then_def statistics_mean_def
      statistics_median_def statistics_stdev_def statistics_variance_def sum_of_squares_def
      np_percentile_def Q1_PERCENTILE_def Q3_PERCENTILE_def)

text \<open>
  Claim C9 as stated fails on floats: for the list \<^verbatim>\<open>[1.2, 2.3, 0.8, 1.5]\<close> the entry
  \<^verbatim>\<open>max(errors) - min(errors)\<close> is \<open>1.5 - 2 powr -52\<close> (printed
  \<^verbatim>\<open>1.4999999999999998\<close>), which is not the float \<open>1.5\<close>.
\<close>

theorem range_example_binary64_counterexample:
  "range_entry_binary64 (map binary64 [1.2, 2.3, 0.8, 1.5]) = Inr (3 / 2 - 1 / 2 ^ 52)
   \<and> binary64 1.5 = 3 / 2
   \<and> range_entry_binary64 (map binary64 [1.2, 2.3, 0.8, 1.5]) \<noteq> Inr (binary64 1.5)"
  unfolding range_entry_example binary64_1_5 by simp

lemma mset_eq_sort:
  fixes xs ys :: "real list"
  assumes "mset xs = mset ys"
  shows "sort xs = sort ys"
  using assms by (intro properties_for_sort) simp_all

lemma mset_eq_sum_list:
  fixes xs ys :: "real list" and f :: "real \<Rightarrow> real"
  assumes "mset xs = mset ys"
  shows "sum_list (map f xs) = sum_list (map f ys)"
proof -
  have "sum_list (map f xs) = sum_mset (image_mset f (mset xs))"
    by (simp flip: sum_mset_sum_list)
  also have "\<dots> = sum_mset (image_mset f (mset ys))"
    by (simp add: assms)
  also have "\<dots> = sum_list (map f ys)"
    by (simp flip: sum_mset_sum_list)
  finally show ?thesis .
qed

lemma mset_eq_mean:
  "mset xs = mset ys \<Longrightarrow> statistics_mean xs = statistics_mean ys"
  using mset_eq_sum_list [of xs ys "\<lambda>x. x"] mset_eq_length [of xs ys]
  by (simp add: statistics_mean_def)

lemma mset_eq_median:
  "mset xs = mset ys \<Longrightarrow> statistics_median xs = statistics_median ys"
  by (simp add: statistics_median_def mset_eq_sort [of xs ys])

lemma mset_eq_sum_of_squares:
  "mset xs = mset ys \<Longrightarrow> sum_of_squares xs = sum_of_squares ys"
  using mset_eq_sum_list [of xs ys "\<lambda>x. x"] mset_eq_length [of xs ys]
    mset_eq_sum_list [of xs ys "\<lambda>x. (x - sum_list ys / real (length ys))\<^sup>2"]
  by (simp add: sum_of_squares_def)

lemma mset_eq_variance:
  "mset xs = mset ys \<Longrightarrow> statistics_variance xs = statistics_variance ys"
  using mset_eq_sum_of_squares [of xs ys] mset_eq_length [of xs ys]
  by (simp add: statistics_variance_def Let_def)

lemma mset_eq_stdev:
  "mset xs = mset ys \<Longrightarrow> statistics_stdev xs = statistics_stdev ys"
  using mset_eq_sum_of_squares [of xs ys] mset_eq_length [of xs ys]
  by (simp add: statistics_stdev_def Let_def)

lemma mset_eq_py_min:
  assumes "mset xs = mset ys"
  shows "py_min xs = py_min ys"
proof (cases "xs = []")
  case True
  with assms show ?thesis by simp
next
  case False
  moreover from False assms have "ys \<noteq> []" by auto
  moreover from assms have "set xs = set ys" by (rule mset_eq_setD)
  ultimately show ?thesis by (simp add: py_min_Min)
qed

lemma mset_eq_py_max:
  assumes "mset xs = mset ys"
  shows "py_max xs = py_max ys"
proof (cases "xs = []")
  case True
  with assms show ?thesis by simp
next
  case False
  moreover from False assms have "ys \<noteq> []" by auto
  moreover from assms have "set xs = set ys" by (rule mset_eq_setD)
  ultimately show ?thesis by (simp add: py_max_Max)
qed

lemma mset_eq_percentile:
  "mset xs = mset ys \<Longrightarrow> np_percentile xs q = np_percentile ys q"
  by (simp add: np_percentile_def mset_eq_sort [of xs ys])

lemma mset_eq_metrics:
  assumes "mset xs = mset ys"
  shows "calculate_statistical_metrics xs = calculate_statistical_metrics ys"
  unfolding calculate_statistical_metrics_def
  by (simp only: mset_eq_mean [OF assms] mset_eq_median [OF assms] mset_eq_stdev [OF assms]
      mset_eq_variance [OF assms] mset_eq_py_min [OF assms] mset_eq_py_max [OF assms]
      mset_eq_percentile [OF assms])

text \<open>
  Claim C10. For a list of at least two values and any rearrangement of it, the metrics
  are computed without error and the two records are the same, field by field.
\<close>

theorem metrics_permutation_invariant:
  assumes "2 \<le> length xs" and "mset ys = mset xs"
  shows "\<exists>m. calculate_statistical_metrics xs = Inr m \<and> calculate_statistical_metrics ys = Inr m"
  using metrics_values [OF assms(1)] mset_eq_metrics [OF assms(2)] by auto

text \<open>
  The list \<open>[1, 2, 3]\<close> and its rearrangement \<open>[3, 1, 2]\<close>.
\<close>

theorem metrics_permutation_invariant_witness:
  "calculate_statistical_metrics [3, 1, 2] = calculate_statistical_metrics [1, 2, 3]
   \<and> calculate_statistical_metrics [1, 2, 3] =
     Inr \<lparr>mean = 2, median = 2, std_dev = 1, variance = 1, min_value = 1, max_value = 3,
          range_value = 2, q1 = 3 / 2, q3 = 5 / 2, iqr = 1\<rparr>"
  using metrics_permutation_invariant [of "[1, 2, 3]" "[3, 1, 2]"]
  by (simp add: calculate_statistical_metrics_def and_then_def statistics_mean_def
      statistics_median_def statistics_stdev_def statistics_variance_def sum_of_squares_def
      np_percentile_def Q1_PERCENTILE_def Q3_PERCENTILE_def)

section \<open>Properties of the counts and the rating\<close>

lemma count_below_length: "count_below xs t = length (filter (\<lambda>e. e < t) xs)"
  unfolding count_below_def by (induction xs) simp_all

lemma count_below_card: "count_below all_errors t = strictly_below all_errors t"
  by (simp add: count_below_length length_filter_conv_card strictly_below_def)

text \<open>
  Claim C8. The three counts are, for the thresholds 1, 5 and 10 in this order, the
  number of positions of the error list whose error is strictly below the threshold, and
  the share of each is that count divided by the length of the list, times 100. For the
  errors \<open>[0.5, 2, 7, 15]\<close> the counts are 1, 2 and 3 and the shares are a quarter, a half
  and three quarters.
\<close>

theorem threshold_counts_and_shares:
  "confidence_intervals all_errors =
     [(1, strictly_below all_errors 1), (5, strictly_below all_errors 5),
      (10, strictly_below all_errors 10)]
   \<and> (all_errors \<noteq> [] \<longrightarrow>
        tolerance_table all_errors =
          Inr (map (\<lambda>t. (strictly_below all_errors t, SETS_COUNT,
                          real (strictly_below all_errors t) / real (length all_errors) * 100))
                 [1, 5, 10]))
   \<and> confidence_intervals [0.5, 2.0, 7.0, 15.0] = [(1, 1), (5, 2), (10, 3)]
   \<and> tolerance_table [0.5, 2.0, 7.0, 15.0] =
        Inr [(1, SETS_COUNT, 1 / 4 * 100), (2, SETS_COUNT, 2 / 4 * 100), (3, SETS_COUNT, 3 / 4 * 100)]"
proof -
  have general: "confidence_intervals all_errors =
     [(1, strictly_below all_errors 1), (5, strictly_below all_errors 5),
      (10, strictly_below all_errors 10)]"
    by (simp add: confidence_intervals_def count_below_card)
  have shares: "all_errors \<noteq> [] \<longrightarrow> tolerance_table all_errors =
          Inr (map (\<lambda>t. (strictly_below all_errors t, SETS_COUNT,
                          real (strictly_below all_errors t) / real (length all_errors) * 100))
                 [1, 5, 10])"
    by (simp add: tolerance_table_def tolerance_row_def and_then_def general)
  have example: "confidence_intervals [0.5, 2.0, 7.0, 15.0] = [(1, 1), (5, 2), (10, 3)]"
    by (simp add: confidence_intervals_def count_below_def)
  have shares_example: "tolerance_table [0.5, 2.0, 7.0, 15.0] =
        Inr [(1, SETS_COUNT, 1 / 4 * 100), (2, SETS_COUNT, 2 / 4 * 100), (3, SETS_COUNT, 3 / 4 * 100)]"
    by (simp add: tolerance_table_def tolerance_row_def and_then_def confidence_intervals_def count_below_def)
  from general shares example shares_example show ?thesis
    by (intro conjI) assumption+
qed

text \<open>
  The errors \<open>[0.5, 15]\<close>: one of two is below each threshold.
\<close>

theorem threshold_counts_and_shares_witness:
  "tolerance_table [0.5, 15.0] = Inr [(1, 8, 50), (1, 8, 50), (1, 8, 50)]"
proof -
  have nonempty: "[0.5, 15.0] \<noteq> ([] :: real list)"
    by simp
  have below: "strictly_below [0.5, 15.0] 1 = 1" "strictly_below [0.5, 15.0] 5 = 1"
    "strictly_below [0.5, 15.0] 10 = 1"
    by (simp_all flip: count_below_card add: count_below_def)
  note threshold_counts_and_shares [of "[0.5, 15.0]", THEN conjunct2, THEN conjunct1,
      rule_format, OF nonempty]
  with below show ?thesis
    by (simp add: SETS_COUNT_def)
qed

text \<open>
  Claim C7. The rating is defined for every largest error and is one of the four names;
  each name is given on exactly its half-open interval, so the bounds 1, 5 and 10 belong
  to the next rating.
\<close>

theorem reliability_thresholds:
  "fst (reliability m) \<in> {''Exceptional'', ''Superior'', ''Satisfactory'', ''Limited''}
   \<and> (fst (reliability m) = ''Exceptional'' \<longleftrightarrow> m < 1)
   \<and> (fst (reliability m) = ''Superior'' \<longleftrightarrow> 1 \<le> m \<and> m < 5)
   \<and> (fst (reliability m) = ''Satisfactory'' \<longleftrightarrow> 5 \<le> m \<and> m < 10)
   \<and> (fst (reliability m) = ''Limited'' \<longleftrightarrow> 10 \<le> m)
   \<and> fst (reliability 1) = ''Superior''
   \<and> fst (reliability 5) = ''Satisfactory''
   \<and> fst (reliability 10) = ''Limited''"
  by (simp add: reliability_def)

text \<open>
  The six values around the three bounds.
\<close>

theorem reliability_thresholds_witness:
  "map (\<lambda>m. fst (reliability m)) [0.9999, 1.0, 4.9999, 5.0, 9.9999, 10.0] =
     [''Exceptional'', ''Superior'', ''Superior'', ''Satisfactory'', ''Satisfactory'', ''Limited'']"
  using reliability_thresholds [of "0.9999"] reliability_thresholds [of "4.9999"]
    reliability_thresholds [of "9.9999"]
  by simp

end
